theory Spec2Isabelle
  imports
    Main
    "HOL-Library.Char_ord"
    "HOL-Library.List_Lexorder"
    "HOL-Library.Product_Lexorder"
begin

section \<open>Values, errors and the library functions the model relies on\<close>

text \<open>
  Exceptions of the Python source are values: every function that can raise returns
  \<open>error + 'a\<close>, with \<open>Inl\<close> for the exception.
\<close>

datatype error =
  ValueError | TypeError | KeyError | IndexError | ZeroDivisionError | OverflowError | AttributeError

text \<open>
  The values that travel through the dictionaries of \<open>to_dict\<close> and \<open>from_dict\<close>
  (JSON without floating point). A dictionary is an association list; the first binding
  of a key is the one a lookup sees.
\<close>

datatype pyval =
    PyNone
  | PyBool bool
  | PyInt int
  | PyStr string
  | PyList "pyval list"
  | PyDict "(string \<times> pyval) list"

type_synonym dict = "(string \<times> pyval) list"


definition dict_get :: "dict \<Rightarrow> string \<Rightarrow> pyval" where
  "dict_get d k = (case map_of d k of None \<Rightarrow> PyNone | Some v \<Rightarrow> v)"

definition dict_item :: "dict \<Rightarrow> string \<Rightarrow> error + pyval" where
  "dict_item d k = (case map_of d k of None \<Rightarrow> Inl KeyError | Some v \<Rightarrow> Inr v)"

text \<open>Python truthiness (\<open>if v:\<close>).\<close>

fun truthy :: "pyval \<Rightarrow> bool" where
  "truthy PyNone = False"
| "truthy (PyBool b) = b"
| "truthy (PyInt i) = (i \<noteq> 0)"
| "truthy (PyStr s) = (s \<noteq> [])"
| "truthy (PyList xs) = (xs \<noteq> [])"
| "truthy (PyDict kvs) = (kvs \<noteq> [])"

subsection \<open>\<open>datetime.time\<close>\<close>

record dt_time =
  hour :: nat
  minute :: nat
  second :: nat
  microsecond :: nat

text \<open>
  Naive \<open>time\<close> objects compare as the tuples \<open>(hour, minute, second, microsecond)\<close>,
  lexicographically.
\<close>

definition time_key :: "dt_time \<Rightarrow> nat \<times> nat \<times> nat \<times> nat" where
  "time_key t = (hour t, minute t, second t, microsecond t)"

definition time_lt :: "dt_time \<Rightarrow> dt_time \<Rightarrow> bool" where
  "time_lt a b = (time_key a < time_key b)"

definition time_le :: "dt_time \<Rightarrow> dt_time \<Rightarrow> bool" where
  "time_le a b = (time_key a \<le> time_key b)"

definition mk_time :: "nat \<Rightarrow> nat \<Rightarrow> nat \<Rightarrow> nat \<Rightarrow> dt_time" where
  "mk_time h m s us = \<lparr>hour = h, minute = m, second = s, microsecond = us\<rparr>"

subsection \<open>\<open>datetime.strptime(s, "%H:%M")\<close> and \<open>strftime("%H:%M")\<close>\<close>

text \<open>
  CPython turns the format \<open>%H:%M\<close> into the regular expression
  \<^verbatim>\<open>(?P<H>2[0-3]|[0-1]\d|\d):(?P<M>[0-5]\d|\d)\<close>, matches it at the start of the string and
  raises \<open>ValueError\<close> when it does not match or when characters remain after the match.
  The alternatives are tried in order. A two-character alternative that matched is never
  undone: the one-digit alternative would need the colon where a digit was just read.
  Strings are byte strings here, so a digit is an ASCII digit.
\<close>

definition is_digit :: "char \<Rightarrow> bool" where
  "is_digit c = (c \<in> set ''0123456789'')"

definition digit_val :: "char \<Rightarrow> nat" where
  "digit_val c = of_char c - 48"

fun parse_H :: "string \<Rightarrow> (nat \<times> string) option" where
  "parse_H [] = None"
| "parse_H [a] = (if is_digit a then Some (digit_val a, []) else None)"
| "parse_H (a # b # rest) =
     (if a = CHR ''2'' \<and> b \<in> set ''0123'' then Some (20 + digit_val b, rest)
      else if a \<in> set ''01'' \<and> is_digit b then Some (10 * digit_val a + digit_val b, rest)
      else if is_digit a then Some (digit_val a, b # rest)
      else None)"

fun parse_M :: "string \<Rightarrow> (nat \<times> string) option" where
  "parse_M [] = None"
| "parse_M [a] = (if is_digit a then Some (digit_val a, []) else None)"
| "parse_M (a # b # rest) =
     (if a \<in> set ''012345'' \<and> is_digit b then Some (10 * digit_val a + digit_val b, rest)
      else if is_digit a then Some (digit_val a, b # rest)
      else None)"

text \<open>
  \<open>datetime.strptime(s, "%H:%M").time()\<close>: the date part (1 January 1900) is dropped by
  \<open>.time()\<close>, seconds and microseconds are zero.
\<close>

definition strptime_HM :: "string \<Rightarrow> error + dt_time" where
  "strptime_HM s =
     (case parse_H s of
        None \<Rightarrow> Inl ValueError
      | Some (h, rest) \<Rightarrow>
          (case rest of
             [] \<Rightarrow> Inl ValueError
           | c # rest' \<Rightarrow>
               if c \<noteq> CHR '':'' then Inl ValueError
               else (case parse_M rest' of
                       None \<Rightarrow> Inl ValueError
                     | Some (m, remaining) \<Rightarrow>
                         if remaining \<noteq> [] then Inl ValueError
                         else Inr (mk_time h m 0 0))))"

text \<open>\<open>%H\<close> and \<open>%M\<close> print a number below 100 with two decimal digits.\<close>

definition digit_char :: "nat \<Rightarrow> char" where
  "digit_char n = ''0123456789'' ! (n mod 10)"

definition two_digits :: "nat \<Rightarrow> string" where
  "two_digits n = [digit_char (n div 10), digit_char n]"

definition format_HM :: "nat \<Rightarrow> nat \<Rightarrow> string" where
  "format_HM h m = two_digits h @ '':'' @ two_digits m"

subsection \<open>\<open>datetime.datetime\<close> and \<open>timedelta\<close>\<close>

text \<open>
  A naive \<open>datetime\<close>. Its date is kept as the proleptic Gregorian ordinal
  (\<open>date.toordinal()\<close>, 1 for 1 January of year 1, 3652059 for 31 December 9999):
  ordinals order dates as \<open>(year, month, day)\<close> does, and the difference of two dates is
  the difference of their ordinals. A \<open>timedelta\<close> is its total number of microseconds.
\<close>

record datetime =
  date_ordinal :: nat
  time_of :: dt_time

definition MAXORDINAL :: nat where
  "MAXORDINAL = 3652059"

definition to_microseconds :: "datetime \<Rightarrow> int" where
  "to_microseconds d =
     (((int (date_ordinal d) * 24 + int (hour (time_of d))) * 60
        + int (minute (time_of d))) * 60 + int (second (time_of d))) * 1000000
     + int (microsecond (time_of d))"


text \<open>\<open>a < b\<close> on two naive datetimes.\<close>

definition dt_lt :: "datetime \<Rightarrow> datetime \<Rightarrow> bool" where
  "dt_lt a b = ((date_ordinal a, time_key (time_of a)) < (date_ordinal b, time_key (time_of b)))"



text \<open>
  \<open>d + timedelta(minutes=1)\<close>: the sum is split into days, hours, minutes, seconds and
  microseconds again; a day after \<open>MAXORDINAL\<close> raises \<open>OverflowError\<close>.
\<close>

definition of_microseconds :: "nat \<Rightarrow> datetime" where
  "of_microseconds us =
     \<lparr>date_ordinal = us div 1000000 div 60 div 60 div 24,
      time_of = mk_time (us div 1000000 div 60 div 60 mod 24) (us div 1000000 div 60 mod 60)
                  (us div 1000000 mod 60) (us mod 1000000)\<rparr>"

definition add_one_minute :: "datetime \<Rightarrow> error + datetime" where
  "add_one_minute d =
     (let r = of_microseconds (nat (to_microseconds d) + 60000000)
      in if 0 < date_ordinal r \<and> date_ordinal r \<le> MAXORDINAL then Inr r
         else Inl OverflowError)"

text \<open>\<open>d.strftime("%H:%M")\<close>.\<close>

definition strftime_HM :: "dt_time \<Rightarrow> string" where
  "strftime_HM t = format_HM (hour t) (minute t)"


section \<open>The data model\<close>

text \<open>
  \<open>PluginInstance\<close>: \<open>settings\<close> is an opaque value, \<open>refresh\<close> a dictionary with the
  optional keys \<open>interval\<close> and \<open>scheduled\<close>, \<open>latest_refresh_time\<close> an ISO string or
  \<open>None\<close>. The attribute \<open>name\<close> of the source is \<open>instance_name\<close> here, apart from the
  playlist's \<open>name\<close>.
\<close>

record plugin_instance =
  plugin_id :: string
  instance_name :: string
  settings :: pyval
  refresh :: dict
  latest_refresh_time :: "string option"

text \<open>
  \<open>Playlist\<close>: \<open>current_plugin_index\<close> is a Python integer or \<open>None\<close>; nothing in the
  source keeps it inside the list.
\<close>

record playlist =
  name :: string
  start_time :: string
  end_time :: string
  plugins :: "plugin_instance list"
  current_plugin_index :: "int option"

section \<open>\<open>Playlist.is_active\<close>\<close>

text \<open>
  The body of the \<open>try\<close> block. \<open>strptime\<close> is called on the current time, then on the
  start time, then (unless the end time is the literal \<open>24:00\<close>) on the end time; the
  first failure leaves the block.
\<close>

definition is_active_body :: "playlist \<Rightarrow> string \<Rightarrow> error + bool" where
  "is_active_body pl current_time =
     (case strptime_HM current_time of
        Inl e \<Rightarrow> Inl e
      | Inr current_dt \<Rightarrow>
          (case strptime_HM (start_time pl) of
             Inl e \<Rightarrow> Inl e
           | Inr start_dt \<Rightarrow>
               (case (if end_time pl = ''24:00'' then Inr (mk_time 23 59 59 999999)
                      else strptime_HM (end_time pl)) of
                  Inl e \<Rightarrow> Inl e
                | Inr end_dt \<Rightarrow>
                    if time_lt end_dt start_dt
                    then Inr (time_le start_dt current_dt \<or> time_lt current_dt end_dt)
                    else Inr (time_le start_dt current_dt \<and> time_lt current_dt end_dt))))"

text \<open>\<open>except ValueError\<close>: only that exception is turned into \<open>False\<close>.\<close>

definition is_active :: "playlist \<Rightarrow> string \<Rightarrow> error + bool" where
  "is_active pl current_time =
     (case is_active_body pl current_time of
        Inl ValueError \<Rightarrow> Inr False
      | Inl e \<Rightarrow> Inl e
      | Inr b \<Rightarrow> Inr b)"

text \<open>The instant a window ends at: \<open>24:00\<close> stands for 23:59:59.999999.\<close>

definition end_instant :: "playlist \<Rightarrow> error + dt_time" where
  "end_instant pl =
     (if end_time pl = ''24:00'' then Inr (mk_time 23 59 59 999999)
      else strptime_HM (end_time pl))"

section \<open>\<open>PluginInstance.should_refresh\<close>\<close>







subsection \<open>The refresh-due test in the words of the specification\<close>








section \<open>Traversal of a playlist\<close>

text \<open>\<open>xs[i]\<close> for a Python integer \<open>i\<close>: a negative index counts from the end.\<close>

definition list_get :: "'a list \<Rightarrow> int \<Rightarrow> error + 'a" where
  "list_get xs i =
     (if 0 \<le> i \<and> i < int (length xs) then Inr (xs ! nat i)
      else if i < 0 \<and> - int (length xs) \<le> i then Inr (xs ! nat (int (length xs) + i))
      else Inl IndexError)"

text \<open>
  \<open>get_next_plugin\<close> returns its result together with the playlist after the call: on an
  empty playlist with no cursor the cursor is already 0 when the indexing fails.
\<close>

definition get_next_plugin :: "playlist \<Rightarrow> (error + plugin_instance) \<times> playlist" where
  "get_next_plugin pl =
     (case current_plugin_index pl of
        None \<Rightarrow>
          (let pl' = pl\<lparr>current_plugin_index := Some 0\<rparr>
           in (list_get (plugins pl') 0, pl'))
      | Some c \<Rightarrow>
          if length (plugins pl) = 0 then (Inl ZeroDivisionError, pl)
          else (let pl' = pl\<lparr>current_plugin_index := Some ((c + 1) mod int (length (plugins pl)))\<rparr>
                in (list_get (plugins pl') ((c + 1) mod int (length (plugins pl))), pl')))"




subsection \<open>The forward scan in the words of the specification\<close>





section \<open>Priority\<close>

text \<open>
  \<open>get_time_range_minutes\<close>. \<open>strptime\<close> puts both times on 1 January 1900, and \<open>24:00\<close>
  becomes 00:00 of the next day. The seconds between the two are floor-divided by 60.
  No exception is caught here.
\<close>

definition seconds_of_day :: "dt_time \<Rightarrow> int" where
  "seconds_of_day t = int (hour t) * 3600 + int (minute t) * 60 + int (second t)"

definition get_time_range_minutes :: "playlist \<Rightarrow> error + int" where
  "get_time_range_minutes pl =
     (case strptime_HM (start_time pl) of
        Inl e \<Rightarrow> Inl e
      | Inr start \<Rightarrow>
          (case (if end_time pl \<noteq> ''24:00''
                 then (case strptime_HM (end_time pl) of
                         Inl e \<Rightarrow> Inl e
                       | Inr t \<Rightarrow> Inr (seconds_of_day t))
                 else Inr (seconds_of_day (mk_time 0 0 0 0) + 86400)) of
             Inl e \<Rightarrow> Inl e
           | Inr end_seconds \<Rightarrow> Inr ((end_seconds - seconds_of_day start) div 60)))"

definition get_priority :: "playlist \<Rightarrow> error + int" where
  "get_priority pl = get_time_range_minutes pl"

section \<open>\<open>PlaylistManager\<close>: resolution and its cache\<close>

text \<open>
  The cache is the dictionary \<open>_active_playlist_cache\<close> from \<open>HH:MM\<close> keys to the cached
  answer (a playlist or \<open>None\<close>), with the expiry \<open>_cache_expiry\<close>. The cached playlist is
  held by value: a cached entry stands for the playlist as it was when it was stored.
\<close>

record playlist_manager =
  playlists :: "playlist list"
  active_playlist_cache :: "string \<rightharpoonup> playlist option"
  cache_expiry :: "datetime option"

text \<open>
  What a caller may pass as \<open>current_datetime\<close>: a \<open>datetime\<close>, a \<open>datetime.time\<close> (which
  has \<open>strftime\<close> but is no timestamp: it cannot be compared with a \<open>datetime\<close>, and a
  \<open>timedelta\<close> cannot be added to it), or an object without a \<open>strftime\<close> attribute
  (\<open>None\<close>, a string, a number).
\<close>

datatype py_arg = ArgDatetime datetime | ArgTime dt_time | ArgNoStrftime

fun arg_strftime :: "py_arg \<Rightarrow> error + string" where
  "arg_strftime (ArgDatetime d) = Inr (strftime_HM (time_of d))"
| "arg_strftime (ArgTime t) = Inr (strftime_HM t)"
| "arg_strftime ArgNoStrftime = Inl AttributeError"

text \<open>
  The filtering loop of \<open>_calculate_active_playlist\<close>: a playlist whose test raises is
  skipped (\<open>except Exception: continue\<close>).
\<close>

fun filter_active :: "playlist list \<Rightarrow> string \<Rightarrow> playlist list" where
  "filter_active [] current_time = []"
| "filter_active (p # ps) current_time =
     (case is_active p current_time of
        Inl e \<Rightarrow> filter_active ps current_time
      | Inr b \<Rightarrow>
          if b \<and> plugins p \<noteq> [] then p # filter_active ps current_time
          else filter_active ps current_time)"

text \<open>
  \<open>list.sort(key=lambda p: (p.get_priority(), p.name))\<close> computes every key before it
  compares any; a key that raises leaves the list in its original order. The sort is
  stable, and tuples compare lexicographically, strings by code point.
\<close>

fun priority_keys :: "playlist list \<Rightarrow> error + ((int \<times> string) \<times> playlist) list" where
  "priority_keys [] = Inr []"
| "priority_keys (p # ps) =
     (case get_priority p of
        Inl e \<Rightarrow> Inl e
      | Inr k \<Rightarrow>
          (case priority_keys ps of
             Inl e \<Rightarrow> Inl e
           | Inr ks \<Rightarrow> Inr (((k, name p), p) # ks)))"

definition sort_by_priority :: "playlist list \<Rightarrow> error + playlist list" where
  "sort_by_priority ps =
     (case priority_keys ps of
        Inl e \<Rightarrow> Inl e
      | Inr ks \<Rightarrow> Inr (map snd (sort_key fst ks)))"

text \<open>
  \<open>_calculate_active_playlist\<close>. The last \<open>[]\<close> case stands for an \<open>IndexError\<close> that cannot
  happen: the sorted list has the length of the non-empty list that was sorted.
\<close>

definition calculate_active_playlist :: "playlist_manager \<Rightarrow> py_arg \<Rightarrow> playlist option" where
  "calculate_active_playlist m current_datetime =
     (if playlists m = [] then None
      else
        (case arg_strftime current_datetime of
           Inl e \<Rightarrow> None
         | Inr current_time \<Rightarrow>
             (let active_playlists = filter_active (playlists m) current_time in
              if active_playlists = [] then None
              else
                (case sort_by_priority active_playlists of
                   Inl e \<Rightarrow> (case active_playlists of [] \<Rightarrow> None | p # _ \<Rightarrow> Some p)
                 | Inr sorted_playlists \<Rightarrow>
                     (case sorted_playlists of [] \<Rightarrow> None | p # _ \<Rightarrow> Some p)))))"

text \<open>
  The cache test \<open>self._cache_expiry and current_datetime < self._cache_expiry and
  cache_key in self._active_playlist_cache\<close> for a \<open>datetime\<close>: the cached answer when all
  three hold.
\<close>

definition cache_hit :: "playlist_manager \<Rightarrow> datetime \<Rightarrow> string \<Rightarrow> playlist option option" where
  "cache_hit m d cache_key =
     (case cache_expiry m of
        None \<Rightarrow> None
      | Some expiry \<Rightarrow> if dt_lt d expiry then active_playlist_cache m cache_key else None)"

fun has_strftime :: "py_arg \<Rightarrow> bool" where
  "has_strftime (ArgDatetime d) = True"
| "has_strftime (ArgTime t) = True"
| "has_strftime ArgNoStrftime = False"

text \<open>
  \<open>determine_active_playlist\<close>, returning its result and the manager after the call. The
  dictionary is assigned before the expiry is computed, so an exception raised by the
  addition leaves the new dictionary behind. A \<open>time\<close> passes the \<open>hasattr\<close> test; then
  either its comparison with the expiry or the addition of the \<open>timedelta\<close> raises
  \<open>TypeError\<close>, which nothing catches.
\<close>

definition determine_active_playlist ::
  "playlist_manager \<Rightarrow> py_arg \<Rightarrow> (error + playlist option) \<times> playlist_manager" where
  "determine_active_playlist m current_datetime =
     (if \<not> has_strftime current_datetime then (Inr None, m)
      else
        (case arg_strftime current_datetime of
           Inl e \<Rightarrow> (Inr None, m)
         | Inr cache_key \<Rightarrow>
             (case current_datetime of
                ArgNoStrftime \<Rightarrow> (Inr None, m)
              | ArgTime t \<Rightarrow>
                  if cache_expiry m \<noteq> None then (Inl TypeError, m)
                  else (Inl TypeError,
                        m\<lparr>active_playlist_cache :=
                             [cache_key \<mapsto> calculate_active_playlist m current_datetime]\<rparr>)
              | ArgDatetime d \<Rightarrow>
                  (case cache_hit m d cache_key of
                     Some cached_playlist \<Rightarrow> (Inr cached_playlist, m)
                   | None \<Rightarrow>
                       (let active_playlist = calculate_active_playlist m current_datetime;
                            m' = m\<lparr>active_playlist_cache := [cache_key \<mapsto> active_playlist]\<rparr>
                        in case add_one_minute d of
                             Inl e \<Rightarrow> (Inl e, m')
                           | Inr expiry \<Rightarrow>
                               (Inr active_playlist, m'\<lparr>cache_expiry := Some expiry\<rparr>))))))"

definition invalidate_cache :: "playlist_manager \<Rightarrow> playlist_manager" where
  "invalidate_cache m = m\<lparr>active_playlist_cache := Map.empty, cache_expiry := None\<rparr>"

subsection \<open>Resolution in the words of the specification\<close>

text \<open>
  The playlists that qualify at a time of day: window-active and with at least one
  plugin. \<open>priority_le p q\<close> is the ordering by priority, then by name.
\<close>

definition qualifying :: "playlist_manager \<Rightarrow> string \<Rightarrow> playlist list" where
  "qualifying m t = filter (\<lambda>p. is_active p t = Inr True \<and> plugins p \<noteq> []) (playlists m)"

definition priority_le :: "playlist \<Rightarrow> playlist \<Rightarrow> bool" where
  "priority_le p q =
     (case get_priority p of
        Inl e \<Rightarrow> False
      | Inr kp \<Rightarrow>
          (case get_priority q of
             Inl e \<Rightarrow> False
           | Inr kq \<Rightarrow> kp < kq \<or> (kp = kq \<and> name p \<le> name q)))"

subsection \<open>Consistency of the cache\<close>

text \<open>
  A cache is consistent with the playlists when every entry under the key of a timestamp
  is what the uncached computation gives at that timestamp. The empty cache is
  consistent, and so is the cache \<open>determine_active_playlist\<close> writes.
\<close>

definition cache_consistent :: "playlist_manager \<Rightarrow> bool" where
  "cache_consistent m =
     (\<forall>d. case active_playlist_cache m (strftime_HM (time_of d)) of
            None \<Rightarrow> True
          | Some cached \<Rightarrow> cached = calculate_active_playlist m (ArgDatetime d))"

definition cache_cleared :: "playlist_manager \<Rightarrow> bool" where
  "cache_cleared m = (active_playlist_cache m = Map.empty \<and> cache_expiry m = None)"

section \<open>\<open>PlaylistManager\<close>: editing\<close>

definition DEFAULT_PLAYLIST_START :: string where
  "DEFAULT_PLAYLIST_START = ''00:00''"

definition DEFAULT_PLAYLIST_END :: string where
  "DEFAULT_PLAYLIST_END = ''24:00''"

definition get_playlist :: "playlist_manager \<Rightarrow> string \<Rightarrow> playlist option" where
  "get_playlist m playlist_name = find (\<lambda>p. name p = playlist_name) (playlists m)"

text \<open>
  \<open>get_playlist\<close> hands out the first playlist of that name, and the caller changes that
  object in place: in the list, the first playlist of that name is replaced.
\<close>

fun replace_first :: "string \<Rightarrow> playlist \<Rightarrow> playlist list \<Rightarrow> playlist list" where
  "replace_first n q [] = []"
| "replace_first n q (p # ps) = (if name p = n then q # ps else p # replace_first n q ps)"

text \<open>
  Reading a typed attribute out of a dictionary value. Python stores whatever value it
  is given and fails later, where the value is used; the records of this model are typed
  as the class docstrings say, and a value of another type is a \<open>TypeError\<close> at once.
\<close>

fun as_str :: "pyval \<Rightarrow> error + string" where
  "as_str (PyStr s) = Inr s"
| "as_str v = Inl TypeError"

fun as_dict :: "pyval \<Rightarrow> error + dict" where
  "as_dict (PyDict d) = Inr d"
| "as_dict v = Inl TypeError"

fun as_opt_str :: "pyval \<Rightarrow> error + string option" where
  "as_opt_str PyNone = Inr None"
| "as_opt_str (PyStr s) = Inr (Some s)"
| "as_opt_str v = Inl TypeError"

fun as_opt_int :: "pyval \<Rightarrow> error + int option" where
  "as_opt_int PyNone = Inr None"
| "as_opt_int (PyInt i) = Inr (Some i)"
| "as_opt_int v = Inl TypeError"

text \<open>Sequencing of computations that may raise.\<close>

definition and_then :: "error + 'a \<Rightarrow> ('a \<Rightarrow> error + 'b) \<Rightarrow> error + 'b" where
  "and_then r f = (case r of Inl e \<Rightarrow> Inl e | Inr x \<Rightarrow> f x)"

text \<open>\<open>PluginInstance.to_dict\<close> and \<open>PluginInstance.from_dict\<close>.\<close>

definition plugin_to_dict :: "plugin_instance \<Rightarrow> dict" where
  "plugin_to_dict p =
     [(''plugin_id'', PyStr (plugin_id p)),
      (''name'', PyStr (instance_name p)),
      (''plugin_settings'', settings p),
      (''refresh'', PyDict (refresh p)),
      (''latest_refresh_time'',
         (case latest_refresh_time p of None \<Rightarrow> PyNone | Some s \<Rightarrow> PyStr s))]"

definition plugin_from_dict :: "dict \<Rightarrow> error + plugin_instance" where
  "plugin_from_dict data =
     and_then (dict_item data ''plugin_id'') (\<lambda>v_id.
     and_then (dict_item data ''name'') (\<lambda>v_name.
     and_then (dict_item data ''plugin_settings'') (\<lambda>v_settings.
     and_then (dict_item data ''refresh'') (\<lambda>v_refresh.
     and_then (as_str v_id) (\<lambda>pid.
     and_then (as_str v_name) (\<lambda>nm.
     and_then (as_dict v_refresh) (\<lambda>r.
     and_then (as_opt_str (dict_get data ''latest_refresh_time'')) (\<lambda>latest.
       Inr \<lparr>plugin_id = pid, instance_name = nm, settings = v_settings, refresh = r,
            latest_refresh_time = latest\<rparr>))))))))"

text \<open>
  \<open>for p in v\<close>: a list gives its elements, a string its characters, a dictionary its
  keys; nothing else can be iterated.
\<close>

fun iterate :: "pyval \<Rightarrow> error + pyval list" where
  "iterate (PyList xs) = Inr xs"
| "iterate (PyStr s) = Inr (map (\<lambda>c. PyStr [c]) s)"
| "iterate (PyDict kvs) = Inr (map (\<lambda>kv. PyStr (fst kv)) kvs)"
| "iterate v = Inl TypeError"

text \<open>
  \<open>[PluginInstance.from_dict(p) for p in ...]\<close>: subscripting an element that is not a
  dictionary with a string key raises \<open>TypeError\<close>.
\<close>

fun plugins_from_items :: "pyval list \<Rightarrow> error + plugin_instance list" where
  "plugins_from_items [] = Inr []"
| "plugins_from_items (PyDict d # rest) =
     and_then (plugin_from_dict d) (\<lambda>p.
     and_then (plugins_from_items rest) (\<lambda>ps. Inr (p # ps)))"
| "plugins_from_items (v # rest) = Inl TypeError"

text \<open>
  \<open>Playlist.to_dict\<close> and \<open>Playlist.from_dict\<close>; the latter runs the constructor, which
  builds the plugins from \<open>plugins or []\<close>.
\<close>

definition playlist_to_dict :: "playlist \<Rightarrow> dict" where
  "playlist_to_dict pl =
     [(''name'', PyStr (name pl)),
      (''start_time'', PyStr (start_time pl)),
      (''end_time'', PyStr (end_time pl)),
      (''plugins'', PyList (map (\<lambda>p. PyDict (plugin_to_dict p)) (plugins pl))),
      (''current_plugin_index'',
         (case current_plugin_index pl of None \<Rightarrow> PyNone | Some i \<Rightarrow> PyInt i))]"

definition playlist_from_dict :: "dict \<Rightarrow> error + playlist" where
  "playlist_from_dict data =
     and_then (dict_item data ''name'') (\<lambda>v_name.
     and_then (dict_item data ''start_time'') (\<lambda>v_start.
     and_then (dict_item data ''end_time'') (\<lambda>v_end.
     and_then (dict_item data ''plugins'') (\<lambda>v_plugins.
     and_then (if truthy v_plugins then iterate v_plugins else Inr []) (\<lambda>items.
     and_then (plugins_from_items items) (\<lambda>ps.
     and_then (as_str v_name) (\<lambda>nm.
     and_then (as_str v_start) (\<lambda>st.
     and_then (as_str v_end) (\<lambda>en.
     and_then (as_opt_int (dict_get data ''current_plugin_index'')) (\<lambda>idx.
       Inr \<lparr>name = nm, start_time = st, end_time = en, plugins = ps,
            current_plugin_index = idx\<rparr>))))))))))"

fun playlists_from_items :: "pyval list \<Rightarrow> error + playlist list" where
  "playlists_from_items [] = Inr []"
| "playlists_from_items (PyDict d # rest) =
     and_then (playlist_from_dict d) (\<lambda>p.
     and_then (playlists_from_items rest) (\<lambda>ps. Inr (p # ps)))"
| "playlists_from_items (v # rest) = Inl TypeError"

text \<open>
  \<open>PlaylistManager.to_dict\<close> and \<open>PlaylistManager.from_dict\<close>; a missing \<open>playlists\<close> key
  is the empty list, and the constructor starts with an empty cache.
\<close>

definition manager_to_dict :: "playlist_manager \<Rightarrow> dict" where
  "manager_to_dict m =
     [(''playlists'', PyList (map (\<lambda>p. PyDict (playlist_to_dict p)) (playlists m)))]"

definition manager_from_dict :: "dict \<Rightarrow> error + playlist_manager" where
  "manager_from_dict data =
     and_then (iterate (case map_of data ''playlists'' of None \<Rightarrow> PyList [] | Some v \<Rightarrow> v))
       (\<lambda>items.
     and_then (playlists_from_items items) (\<lambda>ps.
       Inr \<lparr>playlists = ps, active_playlist_cache = Map.empty, cache_expiry = None\<rparr>))"

text \<open>\<open>Playlist.find_plugin\<close>, with the two values as they come out of the dictionary.\<close>

definition find_plugin :: "playlist \<Rightarrow> pyval \<Rightarrow> pyval \<Rightarrow> plugin_instance option" where
  "find_plugin pl v_id v_name =
     find (\<lambda>p. PyStr (plugin_id p) = v_id \<and> PyStr (instance_name p) = v_name) (plugins pl)"

text \<open>\<open>Playlist.add_plugin\<close>: the result and the playlist after the call.\<close>

definition add_plugin :: "playlist \<Rightarrow> dict \<Rightarrow> error + (bool \<times> playlist)" where
  "add_plugin pl plugin_data =
     and_then (dict_item plugin_data ''plugin_id'') (\<lambda>v_id.
     and_then (dict_item plugin_data ''name'') (\<lambda>v_name.
       if find_plugin pl v_id v_name \<noteq> None then Inr (False, pl)
       else and_then (plugin_from_dict plugin_data) (\<lambda>p.
              Inr (True, pl\<lparr>plugins := plugins pl @ [p]\<rparr>))))"

text \<open>
  The four editing operations of the manager, each with the manager after the call. An
  exception inside \<open>add_plugin\<close> is raised before anything was changed.
\<close>

definition add_plugin_to_playlist ::
  "playlist_manager \<Rightarrow> string \<Rightarrow> dict \<Rightarrow> (error + bool) \<times> playlist_manager" where
  "add_plugin_to_playlist m playlist_name plugin_data =
     (case get_playlist m playlist_name of
        None \<Rightarrow> (Inr False, m)
      | Some pl \<Rightarrow>
          (case add_plugin pl plugin_data of
             Inl e \<Rightarrow> (Inl e, m)
           | Inr (added, pl') \<Rightarrow>
               if added
               then (Inr True,
                     invalidate_cache (m\<lparr>playlists := replace_first playlist_name pl' (playlists m)\<rparr>))
               else (Inr False, m)))"

definition add_playlist ::
  "playlist_manager \<Rightarrow> string \<Rightarrow> string option \<Rightarrow> string option \<Rightarrow> bool \<times> playlist_manager" where
  "add_playlist m new_name start_arg end_arg =
     (let st = (case start_arg of None \<Rightarrow> DEFAULT_PLAYLIST_START
                | Some s \<Rightarrow> if s = [] then DEFAULT_PLAYLIST_START else s);
          en = (case end_arg of None \<Rightarrow> DEFAULT_PLAYLIST_END
                | Some s \<Rightarrow> if s = [] then DEFAULT_PLAYLIST_END else s);
          pl = \<lparr>name = new_name, start_time = st, end_time = en, plugins = [],
                current_plugin_index = None\<rparr>
      in (True, invalidate_cache (m\<lparr>playlists := playlists m @ [pl]\<rparr>)))"

definition update_playlist ::
  "playlist_manager \<Rightarrow> string \<Rightarrow> string \<Rightarrow> string \<Rightarrow> string \<Rightarrow> bool \<times> playlist_manager" where
  "update_playlist m old_name new_name st en =
     (case get_playlist m old_name of
        Some pl \<Rightarrow>
          (True,
           invalidate_cache
             (m\<lparr>playlists :=
                  replace_first old_name (pl\<lparr>name := new_name, start_time := st, end_time := en\<rparr>)
                    (playlists m)\<rparr>))
      | None \<Rightarrow> (False, m))"

definition delete_playlist :: "playlist_manager \<Rightarrow> string \<Rightarrow> playlist_manager" where
  "delete_playlist m n =
     invalidate_cache (m\<lparr>playlists := filter (\<lambda>p. name p \<noteq> n) (playlists m)\<rparr>)"

section \<open>Example values\<close>

text \<open>Concrete plugins, playlists and timestamps, used where a statement is run.\<close>

definition ex_plugin :: plugin_instance where
  "ex_plugin = \<lparr>plugin_id = ''clock'', instance_name = ''Clock'', settings = PyDict [],
                 refresh = [(''interval'', PyInt 3600)], latest_refresh_time = None\<rparr>"

definition ex_window :: "string \<Rightarrow> string \<Rightarrow> string \<Rightarrow> playlist" where
  "ex_window n st en = \<lparr>name = n, start_time = st, end_time = en, plugins = [ex_plugin],
                         current_plugin_index = None\<rparr>"

definition ex_datetime :: "nat \<Rightarrow> nat \<Rightarrow> nat \<Rightarrow> datetime" where
  "ex_datetime day h m = \<lparr>date_ordinal = day, time_of = mk_time h m 0 0\<rparr>"


definition ex_refreshed :: "dict \<Rightarrow> string \<Rightarrow> plugin_instance" where
  "ex_refreshed r s = ex_plugin\<lparr>refresh := r, latest_refresh_time := Some s\<rparr>"

text \<open>
  A rotation of three units with the cursor on the first: at 13:30 on 1 May 2024 the first
  and the third were refreshed half an hour ago, the second never.
\<close>

definition ex_fresh :: "string \<Rightarrow> plugin_instance" where
  "ex_fresh n =
     (ex_refreshed [(''interval'', PyInt 3600)] ''2024-05-01T13:00:00'')\<lparr>instance_name := n\<rparr>"


definition ex_manager :: "playlist list \<Rightarrow> playlist_manager" where
  "ex_manager ps = \<lparr>playlists = ps, active_playlist_cache = Map.empty, cache_expiry = None\<rparr>"

text \<open>
  A manager without playlists whose cache still holds an answer for 12:00, valid until
  12:01 on 1 May 2024: the state after a resolution at 12:00 followed by the assignment
  \<open>manager.playlists = []\<close>.
\<close>

definition ex_stale :: playlist_manager where
  "ex_stale =
     \<lparr>playlists = [],
      active_playlist_cache = [''12:00'' \<mapsto> Some (ex_window ''Day'' ''08:00'' ''20:00'')],
      cache_expiry = Some (ex_datetime 739007 12 1)\<rparr>"

text \<open>A manager with one playlist and the cache a resolution at 12:00 leaves behind.\<close>

definition ex_primed :: playlist_manager where
  "ex_primed =
     \<lparr>playlists = [ex_window ''Day'' ''08:00'' ''20:00''],
      active_playlist_cache = [''12:00'' \<mapsto> Some (ex_window ''Day'' ''08:00'' ''20:00'')],
      cache_expiry = Some (ex_datetime 739007 12 1)\<rparr>"

section \<open>Facts about the parser\<close>

lemma digit_val_le: "is_digit c \<Longrightarrow> digit_val c \<le> 9"
  by (auto simp: is_digit_def digit_val_def)

lemma parse_H_range: "parse_H s = Some (h, rest) \<Longrightarrow> h \<le> 23"
proof (induction s rule: parse_H.induct)
  case 1
  then show ?case by simp
next
  case (2 a)
  then show ?case by (auto split: if_splits dest: digit_val_le)
next
  case (3 a b rest')
  then show ?case
    by (auto simp: digit_val_def is_digit_def split: if_splits)
qed

lemma parse_M_range: "parse_M s = Some (m, rest) \<Longrightarrow> m \<le> 59"
proof (induction s rule: parse_M.induct)
  case 1
  then show ?case by simp
next
  case (2 a)
  then show ?case by (auto split: if_splits dest: digit_val_le)
next
  case (3 a b rest')
  then show ?case
    by (auto simp: digit_val_def is_digit_def split: if_splits)
qed

lemma strptime_HM_error: "strptime_HM s = Inl e \<Longrightarrow> e = ValueError"
  by (auto simp: strptime_HM_def split: option.splits list.splits if_splits)

lemma strptime_HM_range:
  assumes "strptime_HM s = Inr t"
  shows "hour t \<le> 23 \<and> minute t \<le> 59 \<and> second t = 0 \<and> microsecond t = 0"
proof -
  from assms obtain h m rest rest' where
    H: "parse_H s = Some (h, rest)" and M: "parse_M rest' = Some (m, [])"
    and t: "t = mk_time h m 0 0"
    by (auto simp: strptime_HM_def split: option.splits list.splits if_splits)
  from parse_H_range [OF H] parse_M_range [OF M] t show ?thesis
    by (simp add: mk_time_def)
qed

lemma is_active_body_error: "is_active_body pl t = Inl e \<Longrightarrow> e = ValueError"
  by (auto simp: is_active_body_def split: sum.splits if_splits dest: strptime_HM_error)

lemma is_active_total: "\<exists>b. is_active pl t = Inr b"
proof (cases "is_active_body pl t")
  case (Inl e)
  then have "e = ValueError" by (rule is_active_body_error)
  with Inl show ?thesis by (auto simp add: is_active_def)
next
  case (Inr b)
  then show ?thesis by (simp add: is_active_def)
qed

section \<open>Facts about the helper functions\<close>

lemma list_get_in_range: "0 \<le> j \<Longrightarrow> j < int (length xs) \<Longrightarrow> list_get xs j = Inr (xs ! nat j)"
  by (simp add: list_get_def Let_def)

lemma and_then_Inr [simp]: "and_then (Inr x) f = f x"
  by (simp add: and_then_def)

lemma and_then_Inl [simp]: "and_then (Inl e) f = Inl e"
  by (simp add: and_then_def)

section \<open>Window membership\<close>

text \<open>
  Claim C1. For a time-of-day string \<open>t\<close> that parses to \<open>c\<close>, a start time that parses to
  \<open>s\<close> and an end instant \<open>e\<close> (the parsed end time, or 23:59:59.999999 for \<open>24:00\<close>):
  when \<open>s < e\<close>, \<open>is_active\<close> is true exactly when \<open>s \<le> c < e\<close>; when \<open>s > e\<close>, exactly when
  \<open>c \<ge> s\<close> or \<open>c < e\<close>; and the window from \<open>00:00\<close> to \<open>24:00\<close> is active at every \<open>t\<close>.
\<close>

theorem is_active_window:
  assumes "strptime_HM t = Inr c"
    and "strptime_HM (start_time pl) = Inr s"
    and "end_instant pl = Inr e"
  shows "(time_lt s e \<longrightarrow> is_active pl t = Inr (time_le s c \<and> time_lt c e))
       \<and> (time_lt e s \<longrightarrow> is_active pl t = Inr (time_le s c \<or> time_lt c e))
       \<and> (start_time pl = ''00:00'' \<and> end_time pl = ''24:00'' \<longrightarrow> is_active pl t = Inr True)"
proof -
  have body: "is_active_body pl t =
      Inr (if time_lt e s then time_le s c \<or> time_lt c e else time_le s c \<and> time_lt c e)"
    using assms by (simp add: is_active_body_def end_instant_def)
  have asym: "time_lt s e \<Longrightarrow> \<not> time_lt e s"
    by (auto simp: time_lt_def)
  have full: "is_active pl t = Inr True" if w: "start_time pl = ''00:00''" "end_time pl = ''24:00''"
  proof -
    from assms(2) w have s: "s = mk_time 0 0 0 0"
      by (simp add: strptime_HM_def is_digit_def digit_val_def)
    from assms(3) w have e: "e = mk_time 23 59 59 999999"
      by (simp add: end_instant_def)
    from strptime_HM_range [OF assms(1)]
    have "hour c \<le> 23 \<and> minute c \<le> 59 \<and> second c = 0 \<and> microsecond c = 0" .
    then have "time_le s c \<and> time_lt c e \<and> \<not> time_lt e s"
      unfolding s e by (auto simp: time_le_def time_lt_def time_key_def mk_time_def)
    with body show ?thesis by (simp add: is_active_def)
  qed
  from body asym full show ?thesis
    by (auto simp: is_active_def)
qed

theorem is_active_window_witness:
  "is_active (ex_window ''Morning'' ''08:00'' ''12:00'') ''08:00'' = Inr True
 \<and> is_active (ex_window ''Morning'' ''08:00'' ''12:00'') ''12:00'' = Inr False
 \<and> is_active (ex_window ''Night'' ''22:00'' ''06:00'') ''02:00'' = Inr True
 \<and> is_active (ex_window ''Night'' ''22:00'' ''06:00'') ''14:00'' = Inr False
 \<and> is_active (ex_window ''All Day'' ''00:00'' ''24:00'') ''23:59'' = Inr True"
  using
    is_active_window [of "''08:00''" "mk_time 8 0 0 0"
      "ex_window ''Morning'' ''08:00'' ''12:00''" "mk_time 8 0 0 0" "mk_time 12 0 0 0"]
    is_active_window [of "''12:00''" "mk_time 12 0 0 0"
      "ex_window ''Morning'' ''08:00'' ''12:00''" "mk_time 8 0 0 0" "mk_time 12 0 0 0"]
    is_active_window [of "''02:00''" "mk_time 2 0 0 0"
      "ex_window ''Night'' ''22:00'' ''06:00''" "mk_time 22 0 0 0" "mk_time 6 0 0 0"]
    is_active_window [of "''14:00''" "mk_time 14 0 0 0"
      "ex_window ''Night'' ''22:00'' ''06:00''" "mk_time 22 0 0 0" "mk_time 6 0 0 0"]
    is_active_window [of "''23:59''" "mk_time 23 59 0 0"
      "ex_window ''All Day'' ''00:00'' ''24:00''" "mk_time 0 0 0 0" "mk_time 23 59 59 999999"]
  by (simp add: strptime_HM_def is_digit_def digit_val_def end_instant_def ex_window_def
      time_lt_def time_le_def time_key_def mk_time_def)

section \<open>Priority of a window that wraps midnight\<close>

text \<open>
  Claim C5. The priority is meant to be the duration of the window in minutes, the
  narrower of two active windows winning. \<open>get_time_range_minutes\<close> subtracts the start
  from the end on the same day, so the eight hours from 22:00 to 06:00 get the priority
  \<open>-960\<close>, and at 23:10 that window is selected before the thirty minutes from 23:00
  to 23:30.
\<close>

theorem cross_midnight_priority:
  "get_time_range_minutes (ex_window ''Night'' ''22:00'' ''06:00'') = Inr (- 960)
 \<and> get_time_range_minutes (ex_window ''Late'' ''23:00'' ''23:30'') = Inr 30
 \<and> is_active (ex_window ''Night'' ''22:00'' ''06:00'') ''23:10'' = Inr True
 \<and> is_active (ex_window ''Late'' ''23:00'' ''23:30'') ''23:10'' = Inr True
 \<and> calculate_active_playlist
      \<lparr>playlists = [ex_window ''Late'' ''23:00'' ''23:30'', ex_window ''Night'' ''22:00'' ''06:00''],
       active_playlist_cache = Map.empty, cache_expiry = None\<rparr>
      (ArgDatetime (ex_datetime 739000 23 10))
    = Some (ex_window ''Night'' ''22:00'' ''06:00'')"
  by (simp add: get_time_range_minutes_def get_priority_def is_active_def is_active_body_def
     calculate_active_playlist_def sort_by_priority_def ex_window_def ex_datetime_def
     strftime_HM_def format_HM_def two_digits_def digit_char_def seconds_of_day_def
     strptime_HM_def is_digit_def digit_val_def time_lt_def time_le_def time_key_def mk_time_def)

section \<open>Serialization\<close>

lemma plugin_roundtrip: "plugin_from_dict (plugin_to_dict p) = Inr p"
  by (cases p) (simp add: plugin_from_dict_def plugin_to_dict_def dict_item_def dict_get_def
      split: option.splits)

lemma plugins_roundtrip:
  "plugins_from_items (map (\<lambda>p. PyDict (plugin_to_dict p)) ps) = Inr ps"
  by (induction ps) (simp_all add: plugin_roundtrip)

lemma playlist_roundtrip: "playlist_from_dict (playlist_to_dict pl) = Inr pl"
  by (cases pl) (simp add: playlist_from_dict_def playlist_to_dict_def dict_item_def dict_get_def
      plugins_roundtrip split: option.splits)

lemma playlists_roundtrip:
  "playlists_from_items (map (\<lambda>p. PyDict (playlist_to_dict p)) ps) = Inr ps"
  by (induction ps) (simp_all add: playlist_roundtrip)

text \<open>
  Claim C9. \<open>from_dict\<close> after \<open>to_dict\<close> gives a manager with the same sequence of
  playlists: equal names, start and end times, cursors and plugin instances. Its cache
  is the empty one of a new manager.
\<close>

theorem manager_roundtrip:
  "manager_from_dict (manager_to_dict m) =
     Inr \<lparr>playlists = playlists m, active_playlist_cache = Map.empty, cache_expiry = None\<rparr>"
  by (simp add: manager_from_dict_def manager_to_dict_def playlists_roundtrip)

section \<open>Round-robin advance\<close>

text \<open>
  Claim C10. On a playlist with at least one plugin \<open>get_next_plugin\<close> returns the plugin
  at the new cursor, which is inside the list: 0 when the cursor was unset, the old cursor
  plus one modulo the number of plugins otherwise. On a playlist without plugins it
  raises: \<open>IndexError\<close> when the cursor was unset, \<open>ZeroDivisionError\<close> otherwise.
\<close>

theorem get_next_plugin_total_iff_nonempty:
  "(plugins pl \<noteq> [] \<longrightarrow>
      (\<exists>j. get_next_plugin pl = (Inr (plugins pl ! nat j), pl\<lparr>current_plugin_index := Some j\<rparr>)
          \<and> 0 \<le> j \<and> j < int (length (plugins pl))
          \<and> j = (case current_plugin_index pl of
                   None \<Rightarrow> 0
                 | Some c \<Rightarrow> (c + 1) mod int (length (plugins pl)))))
 \<and> (plugins pl = [] \<longrightarrow>
      fst (get_next_plugin pl) =
        (case current_plugin_index pl of
           None \<Rightarrow> Inl IndexError
         | Some c \<Rightarrow> Inl ZeroDivisionError))"
proof (intro conjI impI)
  assume ne: "plugins pl \<noteq> []"
  then have pos: "0 < int (length (plugins pl))" by simp
  show "\<exists>j. get_next_plugin pl = (Inr (plugins pl ! nat j), pl\<lparr>current_plugin_index := Some j\<rparr>)
          \<and> 0 \<le> j \<and> j < int (length (plugins pl))
          \<and> j = (case current_plugin_index pl of
                   None \<Rightarrow> 0
                 | Some c \<Rightarrow> (c + 1) mod int (length (plugins pl)))"
  proof (cases "current_plugin_index pl")
    case None
    with ne pos show ?thesis
      by (simp add: get_next_plugin_def list_get_def Let_def)
  next
    case (Some c)
    let ?j = "(c + 1) mod int (length (plugins pl))"
    from pos have "0 \<le> ?j" "?j < int (length (plugins pl))"
      by simp_all
    with Some ne show ?thesis
      by (simp add: get_next_plugin_def list_get_in_range Let_def)
  qed
next
  assume "plugins pl = []"
  then show "fst (get_next_plugin pl) =
        (case current_plugin_index pl of
           None \<Rightarrow> Inl IndexError
         | Some c \<Rightarrow> Inl ZeroDivisionError)"
    by (simp add: get_next_plugin_def list_get_def Let_def split: option.splits)
qed

theorem get_next_plugin_witness:
  "get_next_plugin ((ex_window ''A'' ''00:00'' ''24:00'')
       \<lparr>plugins := [ex_plugin, ex_plugin\<lparr>instance_name := ''Other''\<rparr>], current_plugin_index := Some 1\<rparr>)
     = (Inr ex_plugin, (ex_window ''A'' ''00:00'' ''24:00'')
       \<lparr>plugins := [ex_plugin, ex_plugin\<lparr>instance_name := ''Other''\<rparr>], current_plugin_index := Some 0\<rparr>)
   \<and> fst (get_next_plugin ((ex_window ''A'' ''00:00'' ''24:00'')\<lparr>plugins := []\<rparr>)) = Inl IndexError
   \<and> fst (get_next_plugin ((ex_window ''A'' ''00:00'' ''24:00'')
       \<lparr>plugins := [], current_plugin_index := Some 0\<rparr>)) = Inl ZeroDivisionError"
  using
    get_next_plugin_total_iff_nonempty [of "(ex_window ''A'' ''00:00'' ''24:00'')
       \<lparr>plugins := [ex_plugin, ex_plugin\<lparr>instance_name := ''Other''\<rparr>], current_plugin_index := Some 1\<rparr>"]
    get_next_plugin_total_iff_nonempty [of "(ex_window ''A'' ''00:00'' ''24:00'')\<lparr>plugins := []\<rparr>"]
    get_next_plugin_total_iff_nonempty [of "(ex_window ''A'' ''00:00'' ''24:00'')
       \<lparr>plugins := [], current_plugin_index := Some 0\<rparr>"]
  by (simp add: ex_window_def)

section \<open>The refresh-due test\<close>








section \<open>Refresh seeking\<close>











section \<open>Resolution\<close>

lemma filter_active_eq:
  "filter_active ps t = filter (\<lambda>p. is_active p t = Inr True \<and> plugins p \<noteq> []) ps"
proof (induction ps)
  case Nil
  show ?case by simp
next
  case (Cons p ps)
  obtain b where "is_active p t = Inr b" using is_active_total by blast
  with Cons show ?case by simp
qed

lemma active_has_priority:
  assumes "is_active p t = Inr True"
  shows "\<exists>k. get_priority p = Inr k"
proof -
  from assms have "is_active_body p t = Inr True"
    by (auto simp: is_active_def split: sum.splits error.splits)
  then obtain s where s: "strptime_HM (start_time p) = Inr s"
    and e: "end_time p = ''24:00'' \<or> (\<exists>e. strptime_HM (end_time p) = Inr e)"
    by (auto simp: is_active_body_def split: sum.splits if_splits)
  then show ?thesis
    by (auto simp: get_priority_def get_time_range_minutes_def)
qed

lemma priority_keys_ok:
  assumes "\<forall>p\<in>set ps. \<exists>k. get_priority p = Inr k"
  shows "\<exists>ks. priority_keys ps = Inr ks \<and> map snd ks = ps
            \<and> (\<forall>x\<in>set ks. get_priority (snd x) = Inr (fst (fst x)) \<and> snd (fst x) = name (snd x))"
  using assms
proof (induction ps)
  case Nil
  show ?case by simp
next
  case (Cons p ps)
  then obtain k where k: "get_priority p = Inr k" by auto
  from Cons obtain ks where ks: "priority_keys ps = Inr ks" "map snd ks = ps"
     "\<forall>x\<in>set ks. get_priority (snd x) = Inr (fst (fst x)) \<and> snd (fst x) = name (snd x)"
    by auto
  from k ks show ?case by simp
qed

lemma sort_key_head_minimal:
  assumes "ks \<noteq> []"
  shows "\<exists>x rest. sort_key f ks = x # rest \<and> x \<in> set ks \<and> (\<forall>y\<in>set ks. f x \<le> f y)"
proof -
  from assms have "sort_key f ks \<noteq> []"
    by (metis length_sort length_0_conv)
  then obtain x rest where xr: "sort_key f ks = x # rest" by (cases "sort_key f ks") auto
  have "sorted (map f (sort_key f ks))" by (rule sorted_sort_key)
  with xr have "\<forall>y\<in>set (x # rest). f x \<le> f y" by auto
  moreover have "set (x # rest) = set ks" using xr by (metis set_sort)
  ultimately show ?thesis using xr by auto
qed


lemma calculate_qualifying:
  fixes m d
  defines "q \<equiv> qualifying m (strftime_HM (time_of d))"
  shows "(q = [] \<longrightarrow> calculate_active_playlist m (ArgDatetime d) = None)
       \<and> (q \<noteq> [] \<longrightarrow>
            (\<exists>p. calculate_active_playlist m (ArgDatetime d) = Some p \<and> p \<in> set q
               \<and> (\<forall>p'\<in>set q. priority_le p p')))"
proof (intro conjI impI)
  assume "q = []"
  then show "calculate_active_playlist m (ArgDatetime d) = None"
    by (simp add: calculate_active_playlist_def filter_active_eq q_def qualifying_def)
next
  assume ne: "q \<noteq> []"
  then have pne: "playlists m \<noteq> []" by (auto simp: q_def qualifying_def)
  have act: "filter_active (playlists m) (strftime_HM (time_of d)) = q"
    by (simp add: filter_active_eq q_def qualifying_def)
  have "\<forall>p\<in>set q. \<exists>k. get_priority p = Inr k"
    by (auto simp: q_def qualifying_def intro: active_has_priority)
  from priority_keys_ok [OF this] obtain ks where
    ks: "priority_keys q = Inr ks" "map snd ks = q"
      "\<forall>x\<in>set ks. get_priority (snd x) = Inr (fst (fst x)) \<and> snd (fst x) = name (snd x)"
    by blast
  from ks(2) ne have "ks \<noteq> []" by auto
  from sort_key_head_minimal [OF this, of fst] obtain x rest where
    x: "sort_key fst ks = x # rest" "x \<in> set ks" "\<forall>y\<in>set ks. fst x \<le> fst y"
    by blast
  from pne ne act ks(1) x(1)
  have res: "calculate_active_playlist m (ArgDatetime d) = Some (snd x)"
    by (simp add: calculate_active_playlist_def sort_by_priority_def)
  from x(2) ks(2) have mem: "snd x \<in> set q" by force
  have "priority_le (snd x) p'" if "p' \<in> set q" for p'
  proof -
    from that ks(2) obtain y where y: "y \<in> set ks" "snd y = p'" by force
    with x(3) have le: "fst x \<le> fst y" by blast
    from ks(3) x(2) have kx: "get_priority (snd x) = Inr (fst (fst x))"
      "snd (fst x) = name (snd x)" by auto
    from ks(3) y have ky: "get_priority p' = Inr (fst (fst y))"
      "snd (fst y) = name p'" by auto
    from le have "fst (fst x) < fst (fst y)
        \<or> (fst (fst x) = fst (fst y) \<and> snd (fst x) \<le> snd (fst y))"
      by (cases "fst x"; cases "fst y") auto
    with kx ky show ?thesis by (simp add: priority_le_def)
  qed
  with res mem show "\<exists>p. calculate_active_playlist m (ArgDatetime d) = Some p \<and> p \<in> set q
               \<and> (\<forall>p'\<in>set q. priority_le p p')" by blast
qed

text \<open>
  Claim C4. Resolution at a timestamp looks only at the playlists that are window-active
  at its \<open>HH:MM\<close> and have a plugin: with none of them the result is none, otherwise it is
  one of them that precedes all of them in the ordering by priority, then name. A
  playlist without plugins is never the result.
\<close>

theorem calculate_active_playlist_minimal:
  "(qualifying m (strftime_HM (time_of d)) = [] \<longrightarrow>
      calculate_active_playlist m (ArgDatetime d) = None)
 \<and> (qualifying m (strftime_HM (time_of d)) \<noteq> [] \<longrightarrow>
      (\<exists>p. calculate_active_playlist m (ArgDatetime d) = Some p
          \<and> p \<in> set (qualifying m (strftime_HM (time_of d)))
          \<and> (\<forall>p'\<in>set (qualifying m (strftime_HM (time_of d))). priority_le p p')))
 \<and> (\<forall>p. plugins p = [] \<longrightarrow> calculate_active_playlist m (ArgDatetime d) \<noteq> Some p)"
proof -
  note main = calculate_qualifying [of m d]
  have "calculate_active_playlist m (ArgDatetime d) \<noteq> Some p" if "plugins p = []" for p
  proof (cases "qualifying m (strftime_HM (time_of d)) = []")
    case True
    with main show ?thesis by simp
  next
    case False
    with main obtain p0 where "calculate_active_playlist m (ArgDatetime d) = Some p0"
      "p0 \<in> set (qualifying m (strftime_HM (time_of d)))" by blast
    then show ?thesis using that by (auto simp: qualifying_def)
  qed
  with main show ?thesis by blast
qed


lemma ex_window_active:
  "is_active (ex_window ''Wide Range'' ''08:00'' ''20:00'') ''11:00'' = Inr True"
  "is_active (ex_window ''Narrow Range'' ''10:00'' ''14:00'') ''11:00'' = Inr True"
  "is_active ((ex_window ''Empty'' ''08:00'' ''20:00'')\<lparr>plugins := []\<rparr>) ''12:00'' = Inr True"
  by (simp_all add: is_active_def is_active_body_def ex_window_def strptime_HM_def is_digit_def
      digit_val_def time_lt_def time_le_def time_key_def mk_time_def)

lemma ex_window_priority:
  "get_priority (ex_window ''Wide Range'' ''08:00'' ''20:00'') = Inr 720"
  "get_priority (ex_window ''Narrow Range'' ''10:00'' ''14:00'') = Inr 240"
  by (simp_all add: get_priority_def get_time_range_minutes_def ex_window_def strptime_HM_def
      is_digit_def digit_val_def seconds_of_day_def mk_time_def)

lemma ex_strftime:
  "strftime_HM (time_of (ex_datetime day 11 0)) = ''11:00''"
  "strftime_HM (time_of (ex_datetime day 12 0)) = ''12:00''"
  by (simp_all add: strftime_HM_def format_HM_def two_digits_def digit_char_def ex_datetime_def
      mk_time_def)

theorem calculate_active_playlist_witness:
  "calculate_active_playlist
      (ex_manager [ex_window ''Wide Range'' ''08:00'' ''20:00'',
                   ex_window ''Narrow Range'' ''10:00'' ''14:00''])
      (ArgDatetime (ex_datetime 739007 11 0))
     = Some (ex_window ''Narrow Range'' ''10:00'' ''14:00'')
 \<and> calculate_active_playlist
      (ex_manager [(ex_window ''Empty'' ''08:00'' ''20:00'')\<lparr>plugins := []\<rparr>])
      (ArgDatetime (ex_datetime 739007 12 0))
     = None"
proof -
  let ?wide = "ex_window ''Wide Range'' ''08:00'' ''20:00''"
  let ?narrow = "ex_window ''Narrow Range'' ''10:00'' ''14:00''"
  let ?empty = "(ex_window ''Empty'' ''08:00'' ''20:00'')\<lparr>plugins := []\<rparr>"
  have q: "qualifying (ex_manager [?wide, ?narrow])
             (strftime_HM (time_of (ex_datetime 739007 11 0))) = [?wide, ?narrow]"
    by (simp add: qualifying_def ex_manager_def ex_strftime ex_window_active)
      (simp add: ex_window_def)
  have q0: "qualifying (ex_manager [?empty])
             (strftime_HM (time_of (ex_datetime 739007 12 0))) = []"
    by (simp add: qualifying_def ex_manager_def)
  have no: "\<not> priority_le ?wide ?narrow"
    by (simp add: priority_le_def ex_window_priority)
  have "calculate_active_playlist (ex_manager [?wide, ?narrow])
          (ArgDatetime (ex_datetime 739007 11 0)) = Some ?narrow"
    using calculate_active_playlist_minimal
      [of "ex_manager [?wide, ?narrow]" "ex_datetime 739007 11 0"] no
    unfolding q by auto
  moreover have "calculate_active_playlist (ex_manager [?empty])
          (ArgDatetime (ex_datetime 739007 12 0)) = None"
    using calculate_active_playlist_minimal [of "ex_manager [?empty]" "ex_datetime 739007 12 0"]
    unfolding q0 by simp
  ultimately show ?thesis by simp
qed

section \<open>The resolution cache\<close>

lemma calculate_cong:
  assumes "playlists m = playlists m'" and "arg_strftime a = arg_strftime a'"
  shows "calculate_active_playlist m a = calculate_active_playlist m' a'"
  unfolding calculate_active_playlist_def assms by (rule refl)

lemma cache_consistent_empty:
  "active_playlist_cache m = Map.empty \<Longrightarrow> cache_consistent m"
  by (simp add: cache_consistent_def)

lemma cache_hit_consistent:
  assumes "cache_consistent m" and "cache_hit m d (strftime_HM (time_of d)) = Some cached"
  shows "cached = calculate_active_playlist m (ArgDatetime d)"
proof -
  from assms(2) have "active_playlist_cache m (strftime_HM (time_of d)) = Some cached"
    by (auto simp: cache_hit_def split: option.splits if_splits)
  with assms(1) show ?thesis
    by (auto simp: cache_consistent_def split: option.splits)
qed

lemma determine_consistent:
  assumes c: "cache_consistent m" and e: "add_one_minute d = Inr expiry"
  shows "fst (determine_active_playlist m (ArgDatetime d))
           = Inr (calculate_active_playlist m (ArgDatetime d))"
    and "playlists (snd (determine_active_playlist m (ArgDatetime d))) = playlists m"
    and "cache_consistent (snd (determine_active_playlist m (ArgDatetime d)))"
proof -
  let ?key = "strftime_HM (time_of d)"
  let ?calc = "calculate_active_playlist m (ArgDatetime d)"
  show "fst (determine_active_playlist m (ArgDatetime d)) = Inr ?calc"
  proof (cases "cache_hit m d ?key")
    case None
    with e show ?thesis by (simp add: determine_active_playlist_def Let_def)
  next
    case (Some cached)
    with cache_hit_consistent [OF c Some] show ?thesis
      by (simp add: determine_active_playlist_def)
  qed
  show "playlists (snd (determine_active_playlist m (ArgDatetime d))) = playlists m"
    using e by (simp add: determine_active_playlist_def Let_def split: option.splits)
  show "cache_consistent (snd (determine_active_playlist m (ArgDatetime d)))"
  proof (cases "cache_hit m d ?key")
    case (Some cached)
    with c show ?thesis by (simp add: determine_active_playlist_def)
  next
    case None
    let ?m' = "m\<lparr>active_playlist_cache := [?key \<mapsto> ?calc], cache_expiry := Some expiry\<rparr>"
    from None e have st: "snd (determine_active_playlist m (ArgDatetime d)) = ?m'"
      by (simp add: determine_active_playlist_def Let_def)
    have "cache_consistent ?m'"
      unfolding cache_consistent_def
    proof
      fix d'
      show "case active_playlist_cache ?m' (strftime_HM (time_of d')) of
              None \<Rightarrow> True
            | Some cached \<Rightarrow> cached = calculate_active_playlist ?m' (ArgDatetime d')"
      proof (cases "strftime_HM (time_of d') = ?key")
        case False
        then show ?thesis by simp
      next
        case True
        then have "calculate_active_playlist ?m' (ArgDatetime d') = ?calc"
          by (intro calculate_cong) simp_all
        with True show ?thesis by simp
      qed
    qed
    with st show ?thesis by simp
  qed
qed

text \<open>
  Claim C6 as stated fails when the cache holds something else than the uncached answer:
  with no playlists left and an unexpired entry for 12:00, the cached playlist is
  returned at 12:00, where the uncached computation gives none.
\<close>

theorem stale_cache_counterexample:
  "fst (determine_active_playlist ex_stale (ArgDatetime (ex_datetime 739007 12 0)))
     = Inr (Some (ex_window ''Day'' ''08:00'' ''20:00''))
 \<and> calculate_active_playlist ex_stale (ArgDatetime (ex_datetime 739007 12 0)) = None"
  by (simp add: determine_active_playlist_def cache_hit_def ex_stale_def ex_datetime_def dt_lt_def
      time_key_def mk_time_def strftime_HM_def format_HM_def two_digits_def digit_char_def
      calculate_active_playlist_def)

text \<open>
  Claim C6, as amended. When the cache is consistent with the playlists and the timestamp
  is at least a minute before the last representable one, \<open>determine_active_playlist\<close>
  returns what \<open>_calculate_active_playlist\<close> returns, changes no playlist and leaves the
  cache consistent; a second call with the same timestamp, with or without clearing the
  cache in between, returns the same again.
\<close>

theorem determine_active_playlist_cache_transparent:
  assumes "cache_consistent m" and "add_one_minute d = Inr expiry"
  shows "fst (determine_active_playlist m (ArgDatetime d))
           = Inr (calculate_active_playlist m (ArgDatetime d))
       \<and> playlists (snd (determine_active_playlist m (ArgDatetime d))) = playlists m
       \<and> cache_consistent (snd (determine_active_playlist m (ArgDatetime d)))
       \<and> fst (determine_active_playlist (snd (determine_active_playlist m (ArgDatetime d)))
                 (ArgDatetime d))
           = Inr (calculate_active_playlist m (ArgDatetime d))
       \<and> fst (determine_active_playlist
                 (invalidate_cache (snd (determine_active_playlist m (ArgDatetime d))))
                 (ArgDatetime d))
           = Inr (calculate_active_playlist m (ArgDatetime d))"
proof -
  let ?m' = "snd (determine_active_playlist m (ArgDatetime d))"
  note first = determine_consistent [OF assms]
  have same: "calculate_active_playlist ?m' (ArgDatetime d)
      = calculate_active_playlist m (ArgDatetime d)"
    by (rule calculate_cong) (simp_all add: first(2))
  have second: "fst (determine_active_playlist ?m' (ArgDatetime d))
      = Inr (calculate_active_playlist m (ArgDatetime d))"
    using determine_consistent(1) [OF first(3) assms(2)] same by simp
  have cleared: "cache_consistent (invalidate_cache ?m')"
    by (rule cache_consistent_empty) (simp add: invalidate_cache_def)
  have "calculate_active_playlist (invalidate_cache ?m') (ArgDatetime d)
      = calculate_active_playlist m (ArgDatetime d)"
    by (rule calculate_cong) (simp_all add: first(2) invalidate_cache_def)
  with determine_consistent(1) [OF cleared assms(2)]
  have third: "fst (determine_active_playlist (invalidate_cache ?m') (ArgDatetime d))
      = Inr (calculate_active_playlist m (ArgDatetime d))"
    by simp
  from first second third show ?thesis by simp
qed


lemma ex_primed_calculate:
  assumes "strftime_HM (time_of d) = ''12:00''"
  shows "calculate_active_playlist ex_primed (ArgDatetime d)
           = Some (ex_window ''Day'' ''08:00'' ''20:00'')"
  using assms
  by (simp add: calculate_active_playlist_def ex_primed_def sort_by_priority_def
      get_priority_def get_time_range_minutes_def is_active_def is_active_body_def
      ex_window_def seconds_of_day_def strptime_HM_def is_digit_def digit_val_def
      time_lt_def time_le_def time_key_def mk_time_def)

lemma ex_primed_consistent: "cache_consistent ex_primed"
  unfolding cache_consistent_def
proof
  fix d
  show "case active_playlist_cache ex_primed (strftime_HM (time_of d)) of
          None \<Rightarrow> True
        | Some cached \<Rightarrow> cached = calculate_active_playlist ex_primed (ArgDatetime d)"
  proof (cases "strftime_HM (time_of d) = ''12:00''")
    case True
    from ex_primed_calculate [OF True] True show ?thesis
      by (simp add: ex_primed_def)
  next
    case False
    then show ?thesis by (simp add: ex_primed_def)
  qed
qed

lemma ex_noon:
  "strftime_HM (time_of (ex_datetime 739007 12 0)) = ''12:00''"
  "add_one_minute (ex_datetime 739007 12 0) = Inr (ex_datetime 739007 12 1)"
  by (simp_all add: strftime_HM_def format_HM_def two_digits_def digit_char_def ex_datetime_def
      mk_time_def add_one_minute_def of_microseconds_def to_microseconds_def MAXORDINAL_def)

theorem determine_active_playlist_witness:
  "fst (determine_active_playlist ex_primed (ArgDatetime (ex_datetime 739007 12 0)))
     = Inr (Some (ex_window ''Day'' ''08:00'' ''20:00''))
 \<and> fst (determine_active_playlist
          (invalidate_cache
             (snd (determine_active_playlist ex_primed (ArgDatetime (ex_datetime 739007 12 0)))))
          (ArgDatetime (ex_datetime 739007 12 0)))
     = Inr (Some (ex_window ''Day'' ''08:00'' ''20:00''))"
  using determine_active_playlist_cache_transparent [OF ex_primed_consistent ex_noon(2)]
    ex_primed_calculate [OF ex_noon(1)]
  by simp

section \<open>Editing operations and the cache\<close>

lemma invalidate_cache_cleared: "cache_cleared (invalidate_cache m)"
  by (simp add: cache_cleared_def invalidate_cache_def)

text \<open>
  Claim C7 as stated fails where an operation changes nothing: \<open>update_playlist\<close> on a
  name that no playlist has returns false and leaves the cache as it was.
\<close>

theorem update_missing_playlist_counterexample:
  "fst (update_playlist ex_primed ''Missing'' ''Updated'' ''09:00'' ''21:00'') = False
 \<and> \<not> cache_cleared (snd (update_playlist ex_primed ''Missing'' ''Updated'' ''09:00'' ''21:00''))"
  by (simp add: update_playlist_def get_playlist_def ex_primed_def ex_window_def
      cache_cleared_def)

text \<open>
  Claim C7, as amended. \<open>add_playlist\<close> and \<open>delete_playlist\<close> always end with an empty
  cache without expiry. \<open>update_playlist\<close> and \<open>add_plugin_to_playlist\<close> do so whenever they
  change the manager, that is, whenever they return true; otherwise they leave the
  manager as it was.
\<close>

theorem editing_invalidates_cache:
  "cache_cleared (snd (add_playlist m n start_arg end_arg))
 \<and> cache_cleared (delete_playlist m n)
 \<and> (fst (update_playlist m old_name n st en) \<longrightarrow>
       cache_cleared (snd (update_playlist m old_name n st en)))
 \<and> (\<not> fst (update_playlist m old_name n st en) \<longrightarrow>
       snd (update_playlist m old_name n st en) = m)
 \<and> (fst (add_plugin_to_playlist m n plugin_data) = Inr True \<longrightarrow>
       cache_cleared (snd (add_plugin_to_playlist m n plugin_data)))
 \<and> (fst (add_plugin_to_playlist m n plugin_data) \<noteq> Inr True \<longrightarrow>
       snd (add_plugin_to_playlist m n plugin_data) = m)"
proof (intro conjI impI)
  show "cache_cleared (snd (add_playlist m n start_arg end_arg))"
    by (simp add: add_playlist_def Let_def invalidate_cache_cleared)
  show "cache_cleared (delete_playlist m n)"
    by (simp add: delete_playlist_def invalidate_cache_cleared)
  show "cache_cleared (snd (update_playlist m old_name n st en))"
    if "fst (update_playlist m old_name n st en)"
    using that
    by (cases "get_playlist m old_name") (simp_all add: update_playlist_def invalidate_cache_cleared)
  show "snd (update_playlist m old_name n st en) = m"
    if "\<not> fst (update_playlist m old_name n st en)"
    using that
    by (cases "get_playlist m old_name") (simp_all add: update_playlist_def)
  show "cache_cleared (snd (add_plugin_to_playlist m n plugin_data))"
    if "fst (add_plugin_to_playlist m n plugin_data) = Inr True"
    using that
    by (auto simp: add_plugin_to_playlist_def invalidate_cache_cleared
        split: option.splits sum.splits prod.splits if_splits)
  show "snd (add_plugin_to_playlist m n plugin_data) = m"
    if "fst (add_plugin_to_playlist m n plugin_data) \<noteq> Inr True"
    using that
    by (auto simp: add_plugin_to_playlist_def
        split: option.splits sum.splits prod.splits if_splits)
qed

theorem editing_invalidates_cache_witness:
  "cache_cleared (snd (update_playlist ex_primed ''Day'' ''Updated'' ''09:00'' ''21:00''))
 \<and> snd (update_playlist ex_primed ''Missing'' ''Updated'' ''09:00'' ''21:00'') = ex_primed
 \<and> cache_cleared (snd (add_plugin_to_playlist ex_primed ''Day'' (plugin_to_dict (ex_fresh ''New''))))
 \<and> snd (add_plugin_to_playlist ex_primed ''Day'' (plugin_to_dict ex_plugin)) = ex_primed"
proof -
  have u1: "fst (update_playlist ex_primed ''Day'' ''Updated'' ''09:00'' ''21:00'')"
    by (simp add: update_playlist_def get_playlist_def ex_primed_def ex_window_def)
  have u2: "\<not> fst (update_playlist ex_primed ''Missing'' ''Updated'' ''09:00'' ''21:00'')"
    by (simp add: update_playlist_def get_playlist_def ex_primed_def ex_window_def)
  have a1: "fst (add_plugin_to_playlist ex_primed ''Day'' (plugin_to_dict (ex_fresh ''New'')))
      = Inr True"
    by (simp add: add_plugin_to_playlist_def get_playlist_def ex_primed_def ex_window_def
        add_plugin_def plugin_to_dict_def plugin_from_dict_def dict_item_def dict_get_def
        find_plugin_def ex_fresh_def ex_refreshed_def ex_plugin_def)
  have a2: "fst (add_plugin_to_playlist ex_primed ''Day'' (plugin_to_dict ex_plugin))
      \<noteq> Inr True"
    by (simp add: add_plugin_to_playlist_def get_playlist_def ex_primed_def ex_window_def
        add_plugin_def plugin_to_dict_def plugin_from_dict_def dict_item_def dict_get_def
        find_plugin_def ex_plugin_def)
  from u1 u2 a1 a2
    editing_invalidates_cache [of ex_primed "''Updated''" None None "''Day''" "''09:00''" "''21:00''"
      "plugin_to_dict (ex_fresh ''New'')"]
    editing_invalidates_cache [of ex_primed "''Updated''" None None "''Missing''" "''09:00''" "''21:00''"
      "plugin_to_dict ex_plugin"]
    editing_invalidates_cache [of ex_primed "''Day''" None None "''Day''" "''09:00''" "''21:00''"
      "plugin_to_dict (ex_fresh ''New'')"]
    editing_invalidates_cache [of ex_primed "''Day''" None None "''Day''" "''09:00''" "''21:00''"
      "plugin_to_dict ex_plugin"]
  show ?thesis by simp
qed

section \<open>Malformed input\<close>




end
